theory Spec2Isabelle
  imports Main "HOL-Library.Word"
begin

section \<open>Fault signals to managed exceptions: a model of vm/core/src/signal.c\<close>

text \<open>
  The file installs one handler for SIGSEGV (and SIGBUS on Darwin), remembers the thread's
  blocked-signal mask, and in the handler turns a fault into a NullPointerException or a
  StackOverflowError, or hands the signal back to the operating system.

  The model is state passing. Every call that leaves the file (into the runtime, libc or
  the kernel) appends an \<open>event\<close> to a log, in program order, with the arguments it was
  given; what such a call returns is read from a record of parameters, \<open>externals\<close>.
\<close>

subsection \<open>Data\<close>

text \<open>Every supported target (x86, Thumb-v7) has 32-bit pointers; \<open>jlong\<close> is 64 bits.\<close>

type_synonym addr = "32 word"
type_synonym jlong = "64 word"
type_synonym sigset_t = "int set"

text \<open>The build targets for which \<open>getFramePointer\<close> and \<open>getPC\<close> have a body.\<close>

datatype platform = DARWIN_X86 | DARWIN_THUMBV7 | LINUX_X86

datatype Class =
    java_lang_Throwable
  | java_lang_NullPointerException
  | java_lang_StackOverflowError
  | java_lang_InternalError
  | OtherClass string

text \<open>A resolved instance field: declaring class, name, descriptor.\<close>

datatype InstanceField = InstanceField Class string string

text \<open>
  A managed object: its class and its 64-bit instance fields. \<open>errnoCode\<close> is the operating
  system's error code an internal error was built from.
\<close>

record Object =
  clazz :: Class
  errnoCode :: "int option"
  longFields :: "(InstanceField \<times> jlong) list"

record Frame =
  prev :: addr
  returnAddress :: addr

record CallStack =
  frames :: "Frame list"

record Thread =
  stackAddr :: addr
  signalMask :: sigset_t

text \<open>
  \<open>Env\<close>: the thread it belongs to, the pending exception (\<open>throwable\<close>, \<open>None\<close> for NULL),
  and the answer of \<open>rvmIsNonNativeFrame(env)\<close>, which is decided by frames this file never
  looks at.
\<close>

record Env =
  currentThread :: Thread
  throwable :: "Object option"
  isNonNativeFrame :: bool

record siginfo_t =
  si_addr :: addr

text \<open>The saved registers of a machine context.\<close>

datatype reg = EBP | EIP | R nat | PC

type_synonym ucontext_t = "reg \<Rightarrow> addr"

datatype sighandler = SIG_DFL | SIG_IGN | SA_signalHandler

datatype sa_flag = SA_SIGINFO | SA_ONSTACK

text \<open>\<open>sa_mask = None\<close>: the member was never written (the handler's fallback leaves it so).\<close>

record sigaction_t =
  sa_handler :: sighandler
  sa_flags :: "sa_flag set"
  sa_mask :: "sigset_t option"

text \<open>
  The \<open>how\<close> argument of \<open>pthread_sigmask\<close>. The installer passes the literal 0 together
  with a NULL set, where \<open>how\<close> is not looked at.
\<close>

datatype sigmask_how = SIG_BLOCK | SIG_UNBLOCK | SIG_SETMASK | HOW_LITERAL int

datatype event =
    Call_rvmAllocateObject Class
  | Call_rvmExceptionClear
  | Call_rvmCaptureCallStack Frame
  | Call_rvmSetLongInstanceFieldValue "Object option" "InstanceField option" jlong
  | Call_rvmRaiseException "Object option"
  | Call_rvmThrowInternalErrorErrno int
  | Call_puts string
  | Call_sigaction int sigaction_t
  | Call_pthread_sigmask sigmask_how "sigset_t option"
  | Call_kill int int

text \<open>
  What the file takes from outside and cannot decide itself: the build target, two macros
  of the runtime's headers, and the answers of the runtime and the operating system.
  \<^item> \<open>sigactionErrno sig\<close>: the \<open>errno\<close> with which \<open>sigaction\<close> on \<open>sig\<close> fails, 0 when it
    succeeds; \<open>sigmaskErrno\<close>: the same for \<open>pthread_sigmask\<close>;
  \<^item> \<open>allocSucceeds c\<close>: whether \<open>rvmAllocateObject\<close> has memory for an instance of \<open>c\<close>;
  \<^item> \<open>allocFailure c\<close>: the error a failed \<open>rvmAllocateObject\<close> for \<open>c\<close> leaves pending on
    the environment it was given, \<open>None\<close> when it leaves the environment as it was;
  \<^item> \<open>frameChain fp\<close>: the frames linked from frame pointer \<open>fp\<close>, as stack memory holds them;
  \<open>callStackAddr\<close>: where the call-stack snapshot is put;
  \<^item> \<open>raiseReturns\<close>: whether \<open>rvmRaiseException\<close> comes back to its caller;
  \<^item> \<open>resolvedField\<close>: what \<open>rvmGetInstanceField\<close> finds for Throwable.stackState.
\<close>

record externals =
  platform :: platform
  THREAD_STACK_GUARD_SIZE :: addr
  PTR_TO_LONG :: "addr \<Rightarrow> jlong"
  resolvedField :: "InstanceField option"
  allocSucceeds :: "Class \<Rightarrow> bool"
  allocFailure :: "Class \<Rightarrow> Object option"
  frameChain :: "addr \<Rightarrow> Frame list"
  callStackAddr :: addr
  raiseReturns :: bool
  sigactionErrno :: "int \<Rightarrow> int"
  sigmaskErrno :: int

text \<open>
  The state outside \<open>Env\<close>: the static \<open>stackStateField\<close>, the kernel's table of signal
  dispositions, the thread's blocked mask, \<open>errno\<close>, the signals sent with \<open>kill\<close>, the
  call-stack snapshots taken so far, and the log of outgoing calls.
\<close>

record state =
  stackStateField :: "InstanceField option"
  dispositions :: "int \<Rightarrow> sigaction_t"
  blocked :: sigset_t
  errno :: int
  delivered :: "(int \<times> int) list"
  callStacks :: "addr \<Rightarrow> CallStack option"
  log :: "event list"

datatype outcome = HandlerReturned | ControlTransferred

subsection \<open>Signal numbers\<close>

definition SIGSEGV :: int where
  "SIGSEGV = 11"

fun SIGBUS :: "platform \<Rightarrow> int" where
  "SIGBUS DARWIN_X86 = 10"
| "SIGBUS DARWIN_THUMBV7 = 10"
| "SIGBUS LINUX_X86 = 7"

fun DARWIN :: "platform \<Rightarrow> bool" where
  "DARWIN DARWIN_X86 = True"
| "DARWIN DARWIN_THUMBV7 = True"
| "DARWIN LINUX_X86 = False"

subsection \<open>The operating system\<close>

definition emit :: "event \<Rightarrow> state \<Rightarrow> state" where
  "emit e s = s\<lparr>log := log s @ [e]\<rparr>"

text \<open>
  \<open>sigaction(sig, &act, NULL)\<close>: on failure -1 with \<open>errno\<close> set and the table as it was, on
  success 0 with the new disposition in the table.
\<close>

definition sigaction :: "externals \<Rightarrow> int \<Rightarrow> sigaction_t \<Rightarrow> state \<Rightarrow> int \<times> state" where
  "sigaction x sig act s =
     (let s1 = emit (Call_sigaction sig act) s in
      if sigactionErrno x sig \<noteq> 0
      then (- 1, s1\<lparr>errno := sigactionErrno x sig\<rparr>)
      else (0, s1\<lparr>dispositions := (dispositions s1)(sig := act)\<rparr>))"

text \<open>
  \<open>pthread_sigmask(how, set, &old)\<close>: returns the error number (0 on success), the old
  mask, and the state. With a NULL set the mask stays and \<open>how\<close> is not looked at.
\<close>

definition pthread_sigmask ::
  "externals \<Rightarrow> sigmask_how \<Rightarrow> sigset_t option \<Rightarrow> state \<Rightarrow> int \<times> sigset_t option \<times> state" where
  "pthread_sigmask x how set_arg s =
     (let s1 = emit (Call_pthread_sigmask how set_arg) s in
      if sigmaskErrno x \<noteq> 0 then (sigmaskErrno x, None, s1)
      else (case set_arg of
              None \<Rightarrow> (0, Some (blocked s1), s1)
            | Some m \<Rightarrow>
                (case how of
                   SIG_BLOCK \<Rightarrow> (0, Some (blocked s1), s1\<lparr>blocked := blocked s1 \<union> m\<rparr>)
                 | SIG_UNBLOCK \<Rightarrow> (0, Some (blocked s1), s1\<lparr>blocked := blocked s1 - m\<rparr>)
                 | SIG_SETMASK \<Rightarrow> (0, Some (blocked s1), s1\<lparr>blocked := m\<rparr>)
                 | HOW_LITERAL n \<Rightarrow> (22, None, s1))))"

text \<open>\<open>kill(pid, sig)\<close>: the signal is sent; pid 0 is the caller's process group.\<close>

definition kill :: "int \<Rightarrow> int \<Rightarrow> state \<Rightarrow> state" where
  "kill pid sig s = (emit (Call_kill pid sig) s)\<lparr>delivered := delivered s @ [(pid, sig)]\<rparr>"

definition puts :: "string \<Rightarrow> state \<Rightarrow> state" where
  "puts str s = emit (Call_puts str) s"

subsection \<open>The runtime's entry points this file calls\<close>

text \<open>
  Modelled from the spec: \<open>rvmGetInstanceField\<close> is not in this file ("field resolution");
  it answers with the resolved field or NULL.
\<close>

definition rvmGetInstanceField :: "externals \<Rightarrow> Class \<Rightarrow> string \<Rightarrow> string \<Rightarrow> InstanceField option" where
  "rvmGetInstanceField x c name desc = resolvedField x"

text \<open>
  Modelled from the spec: \<open>rvmThrowInternalErrorErrno\<close> is not in this file ("an
  internal-error constructor that wraps an OS error code"); the internal error becomes the
  pending exception.
\<close>

definition rvmThrowInternalErrorErrno :: "int \<Rightarrow> Env \<times> state \<Rightarrow> Env \<times> state" where
  "rvmThrowInternalErrorErrno code es =
     (case es of (env, s) \<Rightarrow>
        (env\<lparr>throwable := Some \<lparr>clazz = java_lang_InternalError, errnoCode = Some code, longFields = []\<rparr>\<rparr>,
         emit (Call_rvmThrowInternalErrorErrno code) s))"

text \<open>
  Modelled from the spec: \<open>rvmAllocateObject\<close> is not in this file ("object allocation by
  managed class"); a fresh instance of the class, or NULL when there is no memory. The
  specification does not say what a failed allocation does to the environment it is
  given: it may leave an error of its own pending there (\<open>allocFailure\<close>), or leave the
  environment as it was.
\<close>

definition rvmAllocateObject ::
  "externals \<Rightarrow> Class \<Rightarrow> Env \<times> state \<Rightarrow> Object option \<times> Env \<times> state" where
  "rvmAllocateObject x c es =
     (case es of (env, s) \<Rightarrow>
        if allocSucceeds x c
        then (Some \<lparr>clazz = c, errnoCode = None, longFields = []\<rparr>, env,
              emit (Call_rvmAllocateObject c) s)
        else (None,
              (case allocFailure x c of
                 None \<Rightarrow> env
               | Some e \<Rightarrow> env\<lparr>throwable := Some e\<rparr>),
              emit (Call_rvmAllocateObject c) s))"

text \<open>
  Modelled from the spec: \<open>rvmExceptionClear\<close> is not in this file ("retrieval of any
  currently-pending exception"); it hands out the pending exception, NULL when there is
  none, and leaves none pending.
\<close>

definition rvmExceptionClear :: "Env \<times> state \<Rightarrow> Object option \<times> Env \<times> state" where
  "rvmExceptionClear es =
     (case es of (env, s) \<Rightarrow>
        (throwable env, env\<lparr>throwable := None\<rparr>, emit Call_rvmExceptionClear s))"

text \<open>
  Modelled from the spec: \<open>rvmCaptureCallStack\<close> is not in this file ("stack-snapshot
  capture given a synthetic root frame"; a snapshot is "an immutable capture of the active
  frame chain"). The snapshot is the root frame followed by the frames linked from its
  predecessor; the call returns where the snapshot was put.
\<close>

definition rvmCaptureCallStack :: "externals \<Rightarrow> Frame \<Rightarrow> state \<Rightarrow> addr \<times> state" where
  "rvmCaptureCallStack x root s =
     (callStackAddr x,
      (emit (Call_rvmCaptureCallStack root) s)
        \<lparr>callStacks := (callStacks s)(callStackAddr x \<mapsto> \<lparr>frames = root # frameChain x (prev root)\<rparr>)\<rparr>)"

text \<open>A 64-bit store into one field of a field list; every other entry stays.\<close>

fun storeField :: "InstanceField \<Rightarrow> jlong \<Rightarrow> (InstanceField \<times> jlong) list \<Rightarrow> (InstanceField \<times> jlong) list" where
  "storeField f v [] = [(f, v)]"
| "storeField f v ((g, w) # fs) = (if g = f then (f, v) # fs else (g, w) # storeField f v fs)"

text \<open>
  Modelled from the spec: \<open>rvmSetLongInstanceFieldValue\<close> is not in this file ("a 64-bit
  field-set operation"). The object is passed by reference in C; here the call returns the
  object after the store. With no object or no field there is nothing the store could
  change, and the reference comes back as it went in.
\<close>

definition rvmSetLongInstanceFieldValue ::
  "Object option \<Rightarrow> InstanceField option \<Rightarrow> jlong \<Rightarrow> state \<Rightarrow> Object option \<times> state" where
  "rvmSetLongInstanceFieldValue obj fld v s =
     ((case (obj, fld) of
         (Some ob, Some f) \<Rightarrow> Some (ob\<lparr>longFields := storeField f v (longFields ob)\<rparr>)
       | _ \<Rightarrow> obj),
      emit (Call_rvmSetLongInstanceFieldValue obj fld v) s)"

text \<open>
  Modelled from the spec: \<open>rvmRaiseException\<close> is not in this file ("the exception-raise
  entry point", "a potentially diverging call"). It is given the object; whether it
  returns is \<open>raiseReturns\<close>.
\<close>

definition rvmRaiseException :: "externals \<Rightarrow> Object option \<Rightarrow> state \<Rightarrow> bool \<times> state" where
  "rvmRaiseException x obj s = (raiseReturns x, emit (Call_rvmRaiseException obj) s)"

subsection \<open>signal.c\<close>

definition rvmInitSignals :: "externals \<Rightarrow> state \<Rightarrow> bool \<times> state" where
  "rvmInitSignals x s =
     (let s1 = s\<lparr>stackStateField := rvmGetInstanceField x java_lang_Throwable ''stackState'' ''J''\<rparr> in
      if stackStateField s1 = None then (False, s1) else (True, s1))"

definition rvmTearDownSignals :: "Env \<times> state \<Rightarrow> Env \<times> state" where
  "rvmTearDownSignals es = es"

definition installSignalHandlers :: "externals \<Rightarrow> Env \<times> state \<Rightarrow> bool \<times> Env \<times> state" where
  "installSignalHandlers x es =
     (case es of (env, s) \<Rightarrow>
      let sa = \<lparr>sa_handler = SA_signalHandler, sa_flags = {SA_SIGINFO, SA_ONSTACK}, sa_mask = Some {}\<rparr>;
          (r1, s1) = (if DARWIN (platform x) then sigaction x (SIGBUS (platform x)) sa s else (0, s))
      in if r1 \<noteq> 0
         then (False, rvmTearDownSignals (rvmThrowInternalErrorErrno (errno s1) (env, s1)))
         else
           let (r2, s2) = sigaction x SIGSEGV sa s1
           in if r2 \<noteq> 0
              then (False, rvmTearDownSignals (rvmThrowInternalErrorErrno (errno s2) (env, s2)))
              else
                let (err, old, s3) = pthread_sigmask x (HOW_LITERAL 0) None s2;
                    env3 = (case old of
                              None \<Rightarrow> env
                            | Some m \<Rightarrow> env\<lparr>currentThread := (currentThread env)\<lparr>signalMask := m\<rparr>\<rparr>)
                in if err \<noteq> 0
                   then (False, rvmTearDownSignals (rvmThrowInternalErrorErrno err (env3, s3)))
                   else (True, env3, s3))"

definition rvmSetupSignals :: "externals \<Rightarrow> Env \<times> state \<Rightarrow> bool \<times> Env \<times> state" where
  "rvmSetupSignals x es =
     (case installSignalHandlers x es of
        (ok, es1) \<Rightarrow> if \<not> ok then (False, es1) else (True, es1))"

text \<open>\<open>void\<close>: the state comes back, the result of \<open>pthread_sigmask\<close> is dropped.\<close>

definition rvmRestoreSignalMask :: "externals \<Rightarrow> Env \<times> state \<Rightarrow> Env \<times> state" where
  "rvmRestoreSignalMask x es =
     (case es of (env, s) \<Rightarrow>
        (case pthread_sigmask x SIG_SETMASK (Some (signalMask (currentThread env))) s of
           (err, old, s1) \<Rightarrow> (env, s1)))"

fun getFramePointer :: "platform \<Rightarrow> ucontext_t \<Rightarrow> addr" where
  "getFramePointer DARWIN_X86 uctx = uctx EBP"
| "getFramePointer DARWIN_THUMBV7 uctx = uctx (R 7)"
| "getFramePointer LINUX_X86 uctx = uctx EBP"

fun getPC :: "platform \<Rightarrow> ucontext_t \<Rightarrow> addr" where
  "getPC DARWIN_X86 uctx = uctx EIP"
| "getPC DARWIN_THUMBV7 uctx = uctx PC"
| "getPC LINUX_X86 uctx = uctx EIP"

text \<open>
  Lines 124 to 133 of \<open>signalHandler\<close>: the choice of \<open>exClass\<close>, \<open>None\<close> for NULL. The
  comparisons are those of pointers, unsigned; the subtraction is the machine's.
\<close>

definition exClassFor :: "externals \<Rightarrow> Env \<Rightarrow> siginfo_t \<Rightarrow> Class option" where
  "exClassFor x env info =
     (let faultAddr = si_addr info;
          stackAddr = Thread.stackAddr (currentThread env)
      in if faultAddr = 0 then Some java_lang_NullPointerException
         else if faultAddr < stackAddr \<and> faultAddr \<ge> stackAddr - THREAD_STACK_GUARD_SIZE x
              then Some java_lang_StackOverflowError
              else None)"

text \<open>
  Lines 136 to 145: the body of \<open>if (exClass)\<close> up to and with the raise. The result says
  whether \<open>rvmRaiseException\<close> returned.
\<close>

definition raiseFor :: "externals \<Rightarrow> Class \<Rightarrow> ucontext_t \<Rightarrow> Env \<times> state \<Rightarrow> bool \<times> Env \<times> state" where
  "raiseFor x exClass uctx es =
     (case es of (env, s) \<Rightarrow>
      let (allocated, env1, s1) = rvmAllocateObject x exClass (env, s);
          (throwable1, env2, s2) =
             (case allocated of
                None \<Rightarrow> rvmExceptionClear (env1, s1)
              | Some ob \<Rightarrow> (allocated, env1, s1));
          fakeFrame = \<lparr>prev = getFramePointer (platform x) uctx,
                       returnAddress = getPC (platform x) uctx\<rparr>;
          (callStack, s3) = rvmCaptureCallStack x fakeFrame s2;
          (throwable2, s4) =
             rvmSetLongInstanceFieldValue throwable1 (stackStateField s3) (PTR_TO_LONG x callStack) s3;
          (returned, s5) = rvmRaiseException x throwable2 s4
      in (returned, env2, s5))"

text \<open>Lines 151 to 155: default disposition for the signal, then the signal again.\<close>

definition redeliver :: "externals \<Rightarrow> int \<Rightarrow> state \<Rightarrow> state" where
  "redeliver x signum s =
     (let sa = \<lparr>sa_handler = SIG_DFL, sa_flags = {}, sa_mask = None\<rparr>;
          (r, s1) = sigaction x signum sa s
      in kill 0 signum s1)"

text \<open>
  \<open>signalHandler\<close>. \<open>envOpt\<close> is what \<open>rvmGetEnv()\<close> answers for the interrupted thread.
  When the raise does not return, control has left the handler and nothing after line 145
  runs.
\<close>

definition signalHandler ::
  "externals \<Rightarrow> int \<Rightarrow> siginfo_t \<Rightarrow> ucontext_t \<Rightarrow> Env option \<times> state \<Rightarrow> outcome \<times> Env option \<times> state" where
  "signalHandler x signum info uctx es =
     (case es of (envOpt, s) \<Rightarrow>
        (case envOpt of
           None \<Rightarrow> (HandlerReturned, None, redeliver x signum s)
         | Some env \<Rightarrow>
             if isNonNativeFrame env
             then (case exClassFor x env info of
                     None \<Rightarrow> (HandlerReturned, Some env, redeliver x signum s)
                   | Some exClass \<Rightarrow>
                       (case raiseFor x exClass uctx (env, s) of
                          (returned, env1, s1) \<Rightarrow>
                            if returned
                            then (HandlerReturned, Some env1,
                                  redeliver x signum (puts ''foo7\<newline>'' s1))
                            else (ControlTransferred, Some env1, s1)))
             else (HandlerReturned, Some env, redeliver x signum s)))"

subsection \<open>The vocabulary of the specification\<close>

datatype FaultClassification = NullPointerFault | StackOverflowFault | Unhandled

text \<open>The classification an exception class stands for; NULL is the unhandled fault.\<close>

fun classificationOf :: "Class option \<Rightarrow> FaultClassification" where
  "classificationOf None = Unhandled"
| "classificationOf (Some c) =
     (if c = java_lang_NullPointerException then NullPointerFault
      else if c = java_lang_StackOverflowError then StackOverflowFault
      else Unhandled)"

text \<open>The optional faulting address of the fault metadata: NULL is "no address".\<close>

definition faultingAddress :: "siginfo_t \<Rightarrow> int option" where
  "faultingAddress info = (if si_addr info = 0 then None else Some (uint (si_addr info)))"

text \<open>
  The classifier in the words of the specification, on unbounded integers: no address is
  a null-pointer fault, an address in \<open>[base - g, base)\<close> a stack overflow, anything else
  unhandled.
\<close>

definition classify_spec :: "int \<Rightarrow> int \<Rightarrow> int option \<Rightarrow> FaultClassification" where
  "classify_spec stackBase guardSize a =
     (case a of
        None \<Rightarrow> NullPointerFault
      | Some a \<Rightarrow>
          if stackBase - guardSize \<le> a \<and> a < stackBase then StackOverflowFault else Unhandled)"

text \<open>The calls made between two states, oldest first.\<close>

definition newEvents :: "state \<Rightarrow> state \<Rightarrow> event list" where
  "newEvents s s' = drop (length (log s)) (log s')"

text \<open>
  What a run of the handler shows of its classification: the class of the first exception
  it asks the allocator for, unhandled when it asks for none.
\<close>

fun observedClassification :: "event list \<Rightarrow> FaultClassification" where
  "observedClassification [] = Unhandled"
| "observedClassification (Call_rvmAllocateObject c # evs) = classificationOf (Some c)"
| "observedClassification (e # evs) = observedClassification evs"

fun allocations :: "event list \<Rightarrow> Class list" where
  "allocations [] = []"
| "allocations (Call_rvmAllocateObject c # evs) = c # allocations evs"
| "allocations (e # evs) = allocations evs"

fun raisedObjects :: "event list \<Rightarrow> Object option list" where
  "raisedObjects [] = []"
| "raisedObjects (Call_rvmRaiseException t # evs) = t # raisedObjects evs"
| "raisedObjects (e # evs) = raisedObjects evs"

fun fieldWrites :: "event list \<Rightarrow> (Object option \<times> InstanceField option \<times> jlong) list" where
  "fieldWrites [] = []"
| "fieldWrites (Call_rvmSetLongInstanceFieldValue t f v # evs) = (t, f, v) # fieldWrites evs"
| "fieldWrites (e # evs) = fieldWrites evs"

fun signalsSent :: "event list \<Rightarrow> (int \<times> int) list" where
  "signalsSent [] = []"
| "signalsSent (Call_kill pid sig # evs) = (pid, sig) # signalsSent evs"
| "signalsSent (e # evs) = signalsSent evs"

text \<open>The \<open>struct sigaction\<close> of the handler's last lines, and the one the installer registers.\<close>

definition defaultAction :: sigaction_t where
  "defaultAction = \<lparr>sa_handler = SIG_DFL, sa_flags = {}, sa_mask = None\<rparr>"

definition handlerAction :: sigaction_t where
  "handlerAction = \<lparr>sa_handler = SA_signalHandler, sa_flags = {SA_SIGINFO, SA_ONSTACK}, sa_mask = Some {}\<rparr>"

text \<open>The synthetic frame of lines 140 to 142.\<close>

definition fakeFrameOf :: "externals \<Rightarrow> ucontext_t \<Rightarrow> Frame" where
  "fakeFrameOf x uctx =
     \<lparr>prev = getFramePointer (platform x) uctx, returnAddress = getPC (platform x) uctx\<rparr>"

text \<open>
  The exception pending on the environment once an allocation for \<open>c\<close> has failed: the
  error the allocator left there, or else the one that was pending before.
\<close>

definition pendingAfterFailure :: "externals \<Rightarrow> Class \<Rightarrow> Env \<Rightarrow> Object option" where
  "pendingAfterFailure x c env =
     (case allocFailure x c of None \<Rightarrow> throwable env | Some e \<Rightarrow> Some e)"

text \<open>
  The object lines 136 to 139 leave in \<open>throwable\<close>: the new instance, or the pending
  exception when there was no memory for one.
\<close>

definition chosenThrowable :: "externals \<Rightarrow> Class \<Rightarrow> Env \<Rightarrow> Object option" where
  "chosenThrowable x c env =
     (if allocSucceeds x c then Some \<lparr>clazz = c, errnoCode = None, longFields = []\<rparr>
      else pendingAfterFailure x c env)"

text \<open>
  The classification of a fault as the handler sees it: a thread without an environment
  and a thread in a native frame never get one.
\<close>

definition faultClassification :: "externals \<Rightarrow> Env option \<Rightarrow> siginfo_t \<Rightarrow> FaultClassification" where
  "faultClassification x envOpt info =
     (case envOpt of
        None \<Rightarrow> Unhandled
      | Some env \<Rightarrow> if isNonNativeFrame env then classificationOf (exClassFor x env info) else Unhandled)"

text \<open>
  The error code of the first call of the installer that the operating system refuses,
  \<open>None\<close> when it refuses none. SIGBUS is registered on Darwin only.
\<close>

definition installFailure :: "externals \<Rightarrow> int option" where
  "installFailure x =
     (if DARWIN (platform x) \<and> sigactionErrno x (SIGBUS (platform x)) \<noteq> 0
      then Some (sigactionErrno x (SIGBUS (platform x)))
      else if sigactionErrno x SIGSEGV \<noteq> 0 then Some (sigactionErrno x SIGSEGV)
      else if sigmaskErrno x \<noteq> 0 then Some (sigmaskErrno x)
      else None)"

text \<open>The internal error built from an error code of the operating system.\<close>

definition internalError :: "int \<Rightarrow> Object" where
  "internalError code = \<lparr>clazz = java_lang_InternalError, errnoCode = Some code, longFields = []\<rparr>"

subsection \<open>Sample inputs\<close>

text \<open>
  A Linux/x86 build with a 64 KiB guard below a stack at 0x1000000, memory to allocate
  from, a raise that does not return and an operating system that accepts every call;
  then the same with no memory, with a returning raise, with a pending exception, with an
  allocator that leaves an out-of-memory error pending when it fails, on
  Darwin with SIGSEGV refused (EINVAL, 22), and with \<open>pthread_sigmask\<close> failing.
\<close>

definition sampleField :: InstanceField where
  "sampleField = InstanceField java_lang_Throwable ''stackState'' ''J''"

definition sampleExternals :: externals where
  "sampleExternals =
     \<lparr>platform = LINUX_X86, THREAD_STACK_GUARD_SIZE = 0x10000, PTR_TO_LONG = ucast,
      resolvedField = Some sampleField, allocSucceeds = (\<lambda>c. True), allocFailure = (\<lambda>c. None),
      frameChain = (\<lambda>fp. []), callStackAddr = 0x5000, raiseReturns = False,
      sigactionErrno = (\<lambda>sig. 0), sigmaskErrno = 0\<rparr>"

definition sampleEnv :: Env where
  "sampleEnv =
     \<lparr>currentThread = \<lparr>stackAddr = 0x1000000, signalMask = {}\<rparr>, throwable = None,
      isNonNativeFrame = True\<rparr>"

definition sampleState :: state where
  "sampleState =
     \<lparr>stackStateField = Some sampleField, dispositions = (\<lambda>sig. handlerAction),
      blocked = {}, errno = 0, delivered = [], callStacks = (\<lambda>a. None), log = []\<rparr>"

definition sampleContext :: ucontext_t where
  "sampleContext r = (case r of EBP \<Rightarrow> 0xBF00 | EIP \<Rightarrow> 0x8048 | R n \<Rightarrow> 0 | PC \<Rightarrow> 0)"

definition sampleExternalsNoMemory :: externals where
  "sampleExternalsNoMemory = sampleExternals\<lparr>allocSucceeds := (\<lambda>c. False)\<rparr>"

definition sampleExternalsReturning :: externals where
  "sampleExternalsReturning = sampleExternals\<lparr>raiseReturns := True\<rparr>"

definition samplePending :: Object where
  "samplePending =
     \<lparr>clazz = OtherClass ''java/lang/OutOfMemoryError'', errnoCode = None,
      longFields = [(InstanceField java_lang_Throwable ''cause'' ''J'', 0x77), (sampleField, 0x1111)]\<rparr>"

definition sampleEnvPending :: Env where
  "sampleEnvPending = sampleEnv\<lparr>throwable := Some samplePending\<rparr>"


definition sampleExternalsDarwin :: externals where
  "sampleExternalsDarwin =
     sampleExternals\<lparr>platform := DARWIN_X86, sigactionErrno := (\<lambda>sig. if sig = 11 then 22 else 0)\<rparr>"

definition sampleExternalsMaskFails :: externals where
  "sampleExternalsMaskFails = sampleExternals\<lparr>sigmaskErrno := 22\<rparr>"

definition sampleStateFresh :: state where
  "sampleStateFresh = sampleState\<lparr>dispositions := (\<lambda>sig. defaultAction), blocked := {2, 15}\<rparr>"

section \<open>Properties\<close>

subsection \<open>The log and the state after each step\<close>

lemma log_emit [simp]: "log (emit e s) = log s @ [e]"
  by (simp add: emit_def)

lemma emit_fields [simp]:
  "stackStateField (emit e s) = stackStateField s"
  "dispositions (emit e s) = dispositions s"
  "blocked (emit e s) = blocked s"
  "errno (emit e s) = errno s"
  "delivered (emit e s) = delivered s"
  "callStacks (emit e s) = callStacks s"
  by (simp_all add: emit_def)

lemma newEvents_append [simp]: "log s' = log s @ evs \<Longrightarrow> newEvents s s' = evs"
  by (simp add: newEvents_def)

lemma redeliver_log:
  "log (redeliver x signum s) = log s @ [Call_sigaction signum defaultAction, Call_kill 0 signum]"
  by (simp add: redeliver_def sigaction_def kill_def Let_def defaultAction_def)

lemma redeliver_delivered:
  "delivered (redeliver x signum s) = delivered s @ [(0, signum)]"
  by (simp add: redeliver_def sigaction_def kill_def Let_def)

lemma redeliver_dispositions:
  "dispositions (redeliver x signum s) =
     (if sigactionErrno x signum = 0 then (dispositions s)(signum := defaultAction)
      else dispositions s)"
  by (simp add: redeliver_def sigaction_def kill_def Let_def defaultAction_def)

lemma redeliver_rest:
  "stackStateField (redeliver x signum s) = stackStateField s"
  "blocked (redeliver x signum s) = blocked s"
  "callStacks (redeliver x signum s) = callStacks s"
  by (simp_all add: redeliver_def sigaction_def kill_def Let_def)

lemmas raiseFor_unfold =
  raiseFor_def rvmAllocateObject_def rvmExceptionClear_def rvmCaptureCallStack_def
  rvmSetLongInstanceFieldValue_def rvmRaiseException_def Let_def

lemma raiseFor_log:
  "log (snd (snd (raiseFor x c uctx (env, s)))) =
     log s @ [Call_rvmAllocateObject c]
           @ (if allocSucceeds x c then [] else [Call_rvmExceptionClear])
           @ [Call_rvmCaptureCallStack (fakeFrameOf x uctx),
              Call_rvmSetLongInstanceFieldValue (chosenThrowable x c env) (stackStateField s)
                 (PTR_TO_LONG x (callStackAddr x)),
              Call_rvmRaiseException
                 (fst (rvmSetLongInstanceFieldValue (chosenThrowable x c env) (stackStateField s)
                    (PTR_TO_LONG x (callStackAddr x)) s))]"
  by (simp add: raiseFor_unfold chosenThrowable_def pendingAfterFailure_def fakeFrameOf_def
      split: option.splits prod.splits)

lemma raiseFor_returned:
  "fst (raiseFor x c uctx (env, s)) = raiseReturns x"
  by (simp add: raiseFor_unfold split: option.splits prod.splits)

lemma raiseFor_env:
  "fst (snd (raiseFor x c uctx (env, s))) =
     (if allocSucceeds x c then env else env\<lparr>throwable := None\<rparr>)"
  by (simp add: raiseFor_unfold split: option.splits prod.splits)

lemma raiseFor_state:
  "delivered (snd (snd (raiseFor x c uctx (env, s)))) = delivered s"
  "dispositions (snd (snd (raiseFor x c uctx (env, s)))) = dispositions s"
  "blocked (snd (snd (raiseFor x c uctx (env, s)))) = blocked s"
  "stackStateField (snd (snd (raiseFor x c uctx (env, s)))) = stackStateField s"
  "callStacks (snd (snd (raiseFor x c uctx (env, s)))) =
     (callStacks s)(callStackAddr x \<mapsto>
        \<lparr>frames = fakeFrameOf x uctx # frameChain x (prev (fakeFrameOf x uctx))\<rparr>)"
  by (simp_all add: raiseFor_unfold fakeFrameOf_def split: option.splits prod.splits)

lemma signalHandler_skipped:
  assumes "envOpt = None \<or>
           (\<exists>env. envOpt = Some env \<and> (\<not> isNonNativeFrame env \<or> exClassFor x env info = None))"
  shows "signalHandler x signum info uctx (envOpt, s) =
         (HandlerReturned, envOpt, redeliver x signum s)"
  using assms by (auto simp add: signalHandler_def)

lemma signalHandler_classified:
  assumes "isNonNativeFrame env" "exClassFor x env info = Some c"
  shows "signalHandler x signum info uctx (Some env, s) =
     (if raiseReturns x
      then (HandlerReturned, Some (fst (snd (raiseFor x c uctx (env, s)))),
            redeliver x signum (puts ''foo7\<newline>'' (snd (snd (raiseFor x c uctx (env, s))))))
      else (ControlTransferred, Some (fst (snd (raiseFor x c uctx (env, s)))),
            snd (snd (raiseFor x c uctx (env, s)))))"
  using assms raiseFor_returned [of x c uctx env s]
  by (cases "raiseFor x c uctx (env, s)") (auto simp add: signalHandler_def)

subsection \<open>Classification\<close>

lemma exClassFor_cases:
  "exClassFor x env info =
     (if si_addr info = 0 then Some java_lang_NullPointerException
      else if si_addr info \<in> {stackAddr (currentThread env) - THREAD_STACK_GUARD_SIZE x ..<
                               stackAddr (currentThread env)}
           then Some java_lang_StackOverflowError else None)"
  by (auto simp add: exClassFor_def Let_def)

text \<open>Without wrap-around the machine's interval is the integers' interval.\<close>

lemma word_interval_uint:
  fixes a base g :: addr
  assumes "uint g \<le> uint base"
  shows "(a < base \<and> base - g \<le> a) = (uint base - uint g \<le> uint a \<and> uint a < uint base)"
proof -
  have "uint (base - g) = uint base - uint g"
    using assms by (simp add: uint_sub_if' word_le_def)
  then show ?thesis by (auto simp add: word_le_def word_less_def)
qed

lemma exClassFor_spec:
  assumes "uint (THREAD_STACK_GUARD_SIZE x) \<le> uint (stackAddr (currentThread env))"
  shows "classificationOf (exClassFor x env info) =
         classify_spec (uint (stackAddr (currentThread env))) (uint (THREAD_STACK_GUARD_SIZE x))
           (faultingAddress info)"
  using word_interval_uint [OF assms, of "si_addr info"]
  by (simp add: exClassFor_def Let_def classify_spec_def faultingAddress_def)

text \<open>
  C1: a fault delivered while the thread has an environment and its current frame is
  managed is classified by its address alone: no address (NULL) is a null-pointer fault;
  an address in the half-open interval from \<open>stackAddr - THREAD_STACK_GUARD_SIZE\<close> up to
  \<open>stackAddr\<close> is a stack overflow; every other address is unhandled. The interval is the
  machine's; where the guard size does not exceed the stack base it is the interval
  \<open>[base - g, base)\<close> of the integers, and the handler agrees with the classifier written
  from the specification.
\<close>

theorem C1_fault_classification:
  assumes "isNonNativeFrame env"
  shows "observedClassification
           (newEvents s (snd (snd (signalHandler x signum info uctx (Some env, s))))) =
         (if si_addr info = 0 then NullPointerFault
          else if si_addr info \<in> {stackAddr (currentThread env) - THREAD_STACK_GUARD_SIZE x ..<
                                   stackAddr (currentThread env)}
               then StackOverflowFault else Unhandled)
       \<and> (uint (THREAD_STACK_GUARD_SIZE x) \<le> uint (stackAddr (currentThread env)) \<longrightarrow>
          observedClassification
            (newEvents s (snd (snd (signalHandler x signum info uctx (Some env, s))))) =
          classify_spec (uint (stackAddr (currentThread env))) (uint (THREAD_STACK_GUARD_SIZE x))
            (faultingAddress info))"
proof -
  let ?evs = "newEvents s (snd (snd (signalHandler x signum info uctx (Some env, s))))"
  have obs: "observedClassification ?evs = classificationOf (exClassFor x env info)"
  proof (cases "exClassFor x env info")
    case None
    then have "signalHandler x signum info uctx (Some env, s) =
               (HandlerReturned, Some env, redeliver x signum s)"
      by (simp add: signalHandler_skipped)
    then have "?evs = [Call_sigaction signum defaultAction, Call_kill 0 signum]"
      by (simp add: redeliver_log)
    then show ?thesis using None by simp
  next
    case (Some c)
    have "\<exists>rest. ?evs = Call_rvmAllocateObject c # rest"
      using signalHandler_classified [OF assms Some, of signum uctx s]
      by (simp add: raiseFor_log redeliver_log puts_def)
    then show ?thesis using Some by auto
  qed
  have "classificationOf (exClassFor x env info) =
         (if si_addr info = 0 then NullPointerFault
          else if si_addr info \<in> {stackAddr (currentThread env) - THREAD_STACK_GUARD_SIZE x ..<
                                   stackAddr (currentThread env)}
               then StackOverflowFault else Unhandled)"
    by (simp add: exClassFor_cases)
  then show ?thesis using obs exClassFor_spec [of x env info] by simp
qed

theorem C1_fault_classification_witness:
  "isNonNativeFrame sampleEnv \<and>
   uint (THREAD_STACK_GUARD_SIZE sampleExternals) \<le> uint (stackAddr (currentThread sampleEnv)) \<and>
   observedClassification
     (newEvents sampleState
        (snd (snd (signalHandler sampleExternals 11 \<lparr>si_addr = 0xFFFF00\<rparr> sampleContext
                     (Some sampleEnv, sampleState))))) = StackOverflowFault \<and>
   classify_spec 0x1000000 0x10000 (Some 0xFFFF00) = StackOverflowFault"
  using C1_fault_classification
          [of sampleEnv sampleState sampleExternals 11 "\<lparr>si_addr = 0xFFFF00\<rparr>" sampleContext]
  by (simp add: sampleEnv_def sampleExternals_def classify_spec_def faultingAddress_def)

subsection \<open>The calls of one run of the handler\<close>

lemma allocations_append [simp]: "allocations (xs @ ys) = allocations xs @ allocations ys"
  by (induction xs rule: allocations.induct) simp_all

lemma raisedObjects_append [simp]: "raisedObjects (xs @ ys) = raisedObjects xs @ raisedObjects ys"
  by (induction xs rule: raisedObjects.induct) simp_all

lemma fieldWrites_append [simp]: "fieldWrites (xs @ ys) = fieldWrites xs @ fieldWrites ys"
  by (induction xs rule: fieldWrites.induct) simp_all

lemma signalsSent_append [simp]: "signalsSent (xs @ ys) = signalsSent xs @ signalsSent ys"
  by (induction xs rule: signalsSent.induct) simp_all

lemma exClassFor_range:
  "exClassFor x env info = Some c \<Longrightarrow>
     c = java_lang_NullPointerException \<or> c = java_lang_StackOverflowError"
  by (auto simp add: exClassFor_def Let_def split: if_splits)

lemma skipped_events:
  assumes "envOpt = None \<or>
           (\<exists>env. envOpt = Some env \<and> (\<not> isNonNativeFrame env \<or> exClassFor x env info = None))"
  shows "newEvents s (snd (snd (signalHandler x signum info uctx (envOpt, s)))) =
         [Call_sigaction signum defaultAction, Call_kill 0 signum]"
  using signalHandler_skipped [OF assms, of signum uctx s] by (simp add: redeliver_log)

lemma classified_events:
  assumes "isNonNativeFrame env" "exClassFor x env info = Some c"
  shows "newEvents s (snd (snd (signalHandler x signum info uctx (Some env, s)))) =
         [Call_rvmAllocateObject c]
           @ (if allocSucceeds x c then [] else [Call_rvmExceptionClear])
           @ [Call_rvmCaptureCallStack (fakeFrameOf x uctx),
              Call_rvmSetLongInstanceFieldValue (chosenThrowable x c env) (stackStateField s)
                 (PTR_TO_LONG x (callStackAddr x)),
              Call_rvmRaiseException
                 (fst (rvmSetLongInstanceFieldValue (chosenThrowable x c env) (stackStateField s)
                    (PTR_TO_LONG x (callStackAddr x)) s))]
           @ (if raiseReturns x
              then [Call_puts ''foo7\<newline>'', Call_sigaction signum defaultAction, Call_kill 0 signum]
              else [])"
  using signalHandler_classified [OF assms, of signum uctx s]
  by (simp add: raiseFor_log redeliver_log puts_def)

text \<open>
  C2: a fault whose address is neither NULL nor in the guard region, a fault in a native
  frame, and a fault on a thread without an environment raise no managed exception (no
  object is allocated, none is handed to the raise entry point, the environment is as it
  was). The handler makes exactly two calls: \<open>sigaction\<close> with the default disposition
  for the triggering signal, then one \<open>kill\<close> of that signal to the process group, and
  returns. Where the operating system accepts the \<open>sigaction\<close>, the signal sent meets the
  default disposition and not this handler again.
\<close>

theorem C2_unhandled_faults_are_redelivered:
  assumes "envOpt = None \<or>
           (\<exists>env. envOpt = Some env \<and>
              (\<not> isNonNativeFrame env \<or>
               (si_addr info \<noteq> 0 \<and>
                si_addr info \<notin> {stackAddr (currentThread env) - THREAD_STACK_GUARD_SIZE x ..<
                                  stackAddr (currentThread env)})))"
  shows "case signalHandler x signum info uctx (envOpt, s) of
           (out, envOpt', s') \<Rightarrow>
             out = HandlerReturned \<and> envOpt' = envOpt \<and>
             newEvents s s' = [Call_sigaction signum defaultAction, Call_kill 0 signum] \<and>
             raisedObjects (newEvents s s') = [] \<and>
             allocations (newEvents s s') = [] \<and>
             signalsSent (newEvents s s') = [(0, signum)] \<and>
             delivered s' = delivered s @ [(0, signum)] \<and>
             (sigactionErrno x signum = 0 \<longrightarrow> dispositions s' signum = defaultAction)"
proof -
  have sk: "envOpt = None \<or>
           (\<exists>env. envOpt = Some env \<and> (\<not> isNonNativeFrame env \<or> exClassFor x env info = None))"
    using assms by (auto simp add: exClassFor_cases)
  have r: "signalHandler x signum info uctx (envOpt, s) = (HandlerReturned, envOpt, redeliver x signum s)"
    by (rule signalHandler_skipped [OF sk])
  show ?thesis
    by (simp add: r redeliver_log redeliver_delivered redeliver_dispositions)
qed

theorem C2_unhandled_faults_are_redelivered_witness:
  "(case signalHandler sampleExternals 11 \<lparr>si_addr = 0\<rparr> sampleContext (None, sampleState) of
      (out, envOpt', s') \<Rightarrow>
        out = HandlerReturned \<and> envOpt' = None \<and>
        log s' = [Call_sigaction 11 defaultAction, Call_kill 0 11] \<and>
        delivered s' = [(0, 11)] \<and> dispositions s' 11 = defaultAction)
   \<and> (case signalHandler sampleExternals 11 \<lparr>si_addr = 0x2000000\<rparr> sampleContext
             (Some sampleEnv, sampleState) of
      (out, envOpt', s') \<Rightarrow>
        out = HandlerReturned \<and> envOpt' = Some sampleEnv \<and>
        log s' = [Call_sigaction 11 defaultAction, Call_kill 0 11] \<and>
        delivered s' = [(0, 11)] \<and> dispositions s' 11 = defaultAction)"
  using C2_unhandled_faults_are_redelivered
          [where envOpt = None and info = "\<lparr>si_addr = 0\<rparr>" and x = sampleExternals
             and signum = 11 and uctx = sampleContext and s = sampleState]
        C2_unhandled_faults_are_redelivered
          [where envOpt = "Some sampleEnv" and info = "\<lparr>si_addr = 0x2000000\<rparr>"
             and x = sampleExternals and signum = 11 and uctx = sampleContext and s = sampleState]
  by (simp add: sampleEnv_def sampleExternals_def sampleState_def newEvents_def split: prod.splits)

text \<open>
  C7: in every run of the handler the exception class is chosen before memory is asked
  for. A classified fault makes exactly one allocation, it is the first call the handler
  makes, and its class is the one the classification stands for; an unhandled fault
  makes no allocation at all.
\<close>

theorem C7_allocation_follows_classification:
  "case signalHandler x signum info uctx (envOpt, s) of
     (out, envOpt', s') \<Rightarrow>
       allocations (newEvents s s') =
         (case faultClassification x envOpt info of
            NullPointerFault \<Rightarrow> [java_lang_NullPointerException]
          | StackOverflowFault \<Rightarrow> [java_lang_StackOverflowError]
          | Unhandled \<Rightarrow> [])
       \<and> (faultClassification x envOpt info \<noteq> Unhandled \<longrightarrow>
            (\<exists>c rest. newEvents s s' = Call_rvmAllocateObject c # rest \<and>
                      classificationOf (Some c) = faultClassification x envOpt info))"
proof (cases "envOpt = None \<or>
           (\<exists>env. envOpt = Some env \<and> (\<not> isNonNativeFrame env \<or> exClassFor x env info = None))")
  case True
  then have "faultClassification x envOpt info = Unhandled"
    by (auto simp add: faultClassification_def)
  then show ?thesis using skipped_events [OF True, of s signum uctx]
    by (cases "signalHandler x signum info uctx (envOpt, s)") simp
next
  case False
  then obtain env c where e: "envOpt = Some env" "isNonNativeFrame env" "exClassFor x env info = Some c"
    by auto
  have fc: "faultClassification x envOpt info = classificationOf (Some c)"
    using e by (simp add: faultClassification_def)
  show ?thesis
    using classified_events [OF e(2,3), of s signum uctx] exClassFor_range [OF e(3)] e(1) fc
    by (cases "signalHandler x signum info uctx (envOpt, s)") auto
qed

theorem C7_allocation_follows_classification_witness:
  "faultClassification sampleExternals (Some sampleEnv) \<lparr>si_addr = 0\<rparr> = NullPointerFault \<and>
   allocations (log (snd (snd (signalHandler sampleExternals 11 \<lparr>si_addr = 0\<rparr> sampleContext
                     (Some sampleEnv, sampleState))))) = [java_lang_NullPointerException] \<and>
   hd (log (snd (snd (signalHandler sampleExternals 11 \<lparr>si_addr = 0\<rparr> sampleContext
                     (Some sampleEnv, sampleState))))) = Call_rvmAllocateObject java_lang_NullPointerException \<and>
   faultClassification sampleExternals (Some sampleEnv) \<lparr>si_addr = 0x2000000\<rparr> = Unhandled \<and>
   allocations (log (snd (snd (signalHandler sampleExternals 11 \<lparr>si_addr = 0x2000000\<rparr> sampleContext
                     (Some sampleEnv, sampleState))))) = []"
  using C7_allocation_follows_classification
          [where envOpt = "Some sampleEnv" and info = "\<lparr>si_addr = 0\<rparr>"
             and x = sampleExternals and signum = 11 and uctx = sampleContext and s = sampleState]
        C7_allocation_follows_classification
          [where envOpt = "Some sampleEnv" and info = "\<lparr>si_addr = 0x2000000\<rparr>"
             and x = sampleExternals and signum = 11 and uctx = sampleContext and s = sampleState]
  by (auto simp add: sampleEnv_def sampleExternals_def sampleState_def newEvents_def
        faultClassification_def exClassFor_def split: prod.splits)

subsection \<open>The exception object\<close>

lemma map_of_storeField: "map_of (storeField f v fs) = (map_of fs)(f \<mapsto> v)"
  by (induction fs rule: storeField.induct) auto

lemma observed_is_exClass:
  assumes "isNonNativeFrame env"
  shows "observedClassification
           (newEvents s (snd (snd (signalHandler x signum info uctx (Some env, s))))) =
         classificationOf (exClassFor x env info)"
proof (cases "exClassFor x env info")
  case None
  then show ?thesis using skipped_events [of "Some env" x info s signum uctx] by simp
next
  case (Some c)
  then show ?thesis using classified_events [OF assms Some, of s signum uctx] by simp
qed

lemma classified_state:
  assumes "isNonNativeFrame env" "exClassFor x env info = Some c"
  shows "delivered (snd (snd (signalHandler x signum info uctx (Some env, s)))) =
           (if raiseReturns x then delivered s @ [(0, signum)] else delivered s)"
    and "dispositions (snd (snd (signalHandler x signum info uctx (Some env, s)))) =
           (if raiseReturns x \<and> sigactionErrno x signum = 0
            then (dispositions s)(signum := defaultAction) else dispositions s)"
    and "callStacks (snd (snd (signalHandler x signum info uctx (Some env, s)))) =
           (callStacks s)(callStackAddr x \<mapsto>
              \<lparr>frames = fakeFrameOf x uctx # frameChain x (prev (fakeFrameOf x uctx))\<rparr>)"
    and "fst (signalHandler x signum info uctx (Some env, s)) =
           (if raiseReturns x then HandlerReturned else ControlTransferred)"
    and "fst (snd (signalHandler x signum info uctx (Some env, s))) =
           Some (if allocSucceeds x c then env else env\<lparr>throwable := None\<rparr>)"
  using signalHandler_classified [OF assms, of signum uctx s]
  by (simp_all add: redeliver_delivered redeliver_dispositions redeliver_rest raiseFor_state
        raiseFor_env puts_def)

lemma raised_object:
  assumes "isNonNativeFrame env" "exClassFor x env info = Some c"
  shows "raisedObjects (newEvents s (snd (snd (signalHandler x signum info uctx (Some env, s))))) =
         [case (chosenThrowable x c env, stackStateField s) of
            (Some ob, Some f) \<Rightarrow>
               Some (ob\<lparr>longFields := storeField f (PTR_TO_LONG x (callStackAddr x)) (longFields ob)\<rparr>)
          | _ \<Rightarrow> chosenThrowable x c env]"
  using classified_events [OF assms, of s signum uctx]
  by (simp add: rvmSetLongInstanceFieldValue_def split: option.splits)

text \<open>
  C9: the handler does not stop after the raise. When \<open>rvmRaiseException\<close> returns, the
  handler prints a line and goes on into the fallback: it sets the default disposition for
  the triggering signal and sends the signal to the process group (\<open>kill\<close> with pid 0),
  then returns. Only when the raise does not return is the raise the last thing the
  handler does: then no signal is sent and no disposition changes.
\<close>

theorem C9_returning_raise_falls_through:
  assumes "isNonNativeFrame env" "exClassFor x env info = Some c"
  shows "case signalHandler x signum info uctx (Some env, s) of
           (out, envOpt', s') \<Rightarrow>
             (raiseReturns x \<longrightarrow>
                out = HandlerReturned \<and>
                (\<exists>pre t. newEvents s s' =
                    pre @ [Call_rvmRaiseException t, Call_puts ''foo7\<newline>'',
                           Call_sigaction signum defaultAction, Call_kill 0 signum]) \<and>
                delivered s' = delivered s @ [(0, signum)] \<and>
                (sigactionErrno x signum = 0 \<longrightarrow> dispositions s' signum = defaultAction))
           \<and> (\<not> raiseReturns x \<longrightarrow>
                out = ControlTransferred \<and>
                (\<exists>pre t. newEvents s s' = pre @ [Call_rvmRaiseException t]) \<and>
                delivered s' = delivered s \<and> dispositions s' = dispositions s)"
  using classified_events [OF assms, of s signum uctx] classified_state [OF assms, of signum uctx s]
  by (cases "signalHandler x signum info uctx (Some env, s)") auto

theorem C9_returning_raise_falls_through_witness:
  "isNonNativeFrame sampleEnv \<and>
   exClassFor sampleExternalsReturning sampleEnv \<lparr>si_addr = 0\<rparr> = Some java_lang_NullPointerException \<and>
   raiseReturns sampleExternalsReturning \<and>
   (case signalHandler sampleExternalsReturning 11 \<lparr>si_addr = 0\<rparr> sampleContext
           (Some sampleEnv, sampleState) of
      (out, envOpt', s') \<Rightarrow>
        out = HandlerReturned \<and>
        drop 3 (log s') = [Call_rvmRaiseException
                             (Some \<lparr>clazz = java_lang_NullPointerException, errnoCode = None,
                                    longFields = [(sampleField, 0x5000)]\<rparr>),
                           Call_puts ''foo7\<newline>'',
                           Call_sigaction 11 defaultAction, Call_kill 0 11] \<and>
        delivered s' = [(0, 11)] \<and> dispositions s' 11 = defaultAction)
   \<and> \<not> raiseReturns sampleExternals \<and>
   (case signalHandler sampleExternals 11 \<lparr>si_addr = 0\<rparr> sampleContext
           (Some sampleEnv, sampleState) of
      (out, envOpt', s') \<Rightarrow>
        out = ControlTransferred \<and> delivered s' = [] \<and> dispositions s' 11 = handlerAction)"
  using C9_returning_raise_falls_through
          [where env = sampleEnv and x = sampleExternalsReturning and info = "\<lparr>si_addr = 0\<rparr>"
             and c = java_lang_NullPointerException and signum = 11 and uctx = sampleContext
             and s = sampleState]
        C9_returning_raise_falls_through
          [where env = sampleEnv and x = sampleExternals and info = "\<lparr>si_addr = 0\<rparr>"
             and c = java_lang_NullPointerException and signum = 11 and uctx = sampleContext
             and s = sampleState]
  by (simp add: sampleEnv_def sampleExternals_def sampleExternalsReturning_def sampleState_def
        sampleContext_def exClassFor_def signalHandler_def raiseFor_unfold redeliver_def
        sigaction_def kill_def puts_def emit_def defaultAction_def handlerAction_def)



text \<open>
  C4, as the code has it: for a fault with no faulting address in a managed frame, when
  the allocation succeeds (and the stack-state field is resolved), the object handed to
  the raise entry point is a NullPointerException whose stack-state field holds the
  handle of a snapshot taken in this run; the snapshot's first frame is the synthetic
  frame with predecessor \<open>getFramePointer(context)\<close> and return address \<open>getPC(context)\<close>,
  followed by the frames linked from that frame pointer.
\<close>

theorem C4_null_fault_snapshot:
  assumes "isNonNativeFrame env" "si_addr info = 0"
    and "allocSucceeds x java_lang_NullPointerException" "stackStateField s = Some f"
  shows "case signalHandler x signum info uctx (Some env, s) of
           (out, envOpt', s') \<Rightarrow>
             (\<exists>ob snap.
                raisedObjects (newEvents s s') = [Some ob] \<and>
                clazz ob = java_lang_NullPointerException \<and>
                map_of (longFields ob) f = Some (PTR_TO_LONG x (callStackAddr x)) \<and>
                callStacks s' (callStackAddr x) = Some snap \<and>
                frames snap =
                  \<lparr>prev = getFramePointer (platform x) uctx,
                   returnAddress = getPC (platform x) uctx\<rparr>
                  # frameChain x (getFramePointer (platform x) uctx) \<and>
                returnAddress (hd (frames snap)) = getPC (platform x) uctx)"
proof -
  have c: "exClassFor x env info = Some java_lang_NullPointerException"
    using assms(2) by (simp add: exClassFor_def)
  show ?thesis
    using raised_object [OF assms(1) c, of s signum uctx]
          classified_state(3) [OF assms(1) c, of signum uctx s] assms(3,4)
    by (cases "signalHandler x signum info uctx (Some env, s)")
       (simp add: chosenThrowable_def fakeFrameOf_def map_of_storeField)
qed

theorem C4_null_fault_snapshot_witness:
  "isNonNativeFrame sampleEnv \<and> si_addr \<lparr>si_addr = 0\<rparr> = 0 \<and>
   allocSucceeds sampleExternals java_lang_NullPointerException \<and>
   stackStateField sampleState = Some sampleField \<and>
   (case signalHandler sampleExternals 11 \<lparr>si_addr = 0\<rparr> sampleContext
           (Some sampleEnv, sampleState) of
      (out, envOpt', s') \<Rightarrow>
        raisedObjects (log s') =
          [Some \<lparr>clazz = java_lang_NullPointerException, errnoCode = None,
                 longFields = [(sampleField, 0x5000)]\<rparr>] \<and>
        callStacks s' 0x5000 = Some \<lparr>frames = [\<lparr>prev = 0xBF00, returnAddress = 0x8048\<rparr>]\<rparr> \<and>
        getPC LINUX_X86 sampleContext = 0x8048)"
  using C4_null_fault_snapshot
          [where env = sampleEnv and x = sampleExternals and info = "\<lparr>si_addr = 0\<rparr>"
             and f = sampleField and signum = 11 and uctx = sampleContext and s = sampleState]
  by (simp add: sampleEnv_def sampleExternals_def sampleState_def
        sampleContext_def exClassFor_def signalHandler_def raiseFor_unfold redeliver_def
        sigaction_def kill_def puts_def emit_def)

text \<open>
  When the allocation fails, the exception raised for a fault without address is the one
  that was pending, whatever its class.
\<close>

theorem C4_counterexample:
  "isNonNativeFrame sampleEnvPending \<and> si_addr \<lparr>si_addr = 0\<rparr> = 0 \<and>
   map (map_option clazz)
     (raisedObjects
        (log (snd (snd (signalHandler sampleExternalsNoMemory 11 \<lparr>si_addr = 0\<rparr> sampleContext
                          (Some sampleEnvPending, sampleState)))))) =
     [Some (OtherClass ''java/lang/OutOfMemoryError'')] \<and>
   OtherClass ''java/lang/OutOfMemoryError'' \<noteq> java_lang_NullPointerException"
  by (simp add: sampleEnv_def sampleEnvPending_def samplePending_def sampleExternals_def
        sampleExternalsNoMemory_def sampleState_def
        sampleContext_def exClassFor_def signalHandler_def raiseFor_unfold redeliver_def
        sigaction_def kill_def puts_def emit_def)

text \<open>
  C10: a classified run makes exactly one field store: on the object it is about to
  raise, through the cached \<open>stackStateField\<close>, with the handle of the call stack captured
  in this run. The object handed to the raise entry point differs from the object chosen
  (new, or the pending one taken in its place) in that field only: class and every other
  field are the same, and whatever the field held before is replaced.
\<close>

theorem C10_only_stack_state_written:
  assumes "isNonNativeFrame env" "exClassFor x env info = Some c"
  shows "case signalHandler x signum info uctx (Some env, s) of
           (out, envOpt', s') \<Rightarrow>
             fieldWrites (newEvents s s') =
               [(chosenThrowable x c env, stackStateField s, PTR_TO_LONG x (callStackAddr x))] \<and>
             callStacks s' (callStackAddr x) =
               Some \<lparr>frames = fakeFrameOf x uctx # frameChain x (prev (fakeFrameOf x uctx))\<rparr> \<and>
             (\<forall>ob f. chosenThrowable x c env = Some ob \<and> stackStateField s = Some f \<longrightarrow>
                (\<exists>ob'. raisedObjects (newEvents s s') = [Some ob'] \<and>
                       clazz ob' = clazz ob \<and> errnoCode ob' = errnoCode ob \<and>
                       map_of (longFields ob') f = Some (PTR_TO_LONG x (callStackAddr x)) \<and>
                       (\<forall>g. g \<noteq> f \<longrightarrow> map_of (longFields ob') g = map_of (longFields ob) g)))"
proof -
  let ?evs = "newEvents s (snd (snd (signalHandler x signum info uctx (Some env, s))))"
  have fw: "fieldWrites ?evs =
              [(chosenThrowable x c env, stackStateField s, PTR_TO_LONG x (callStackAddr x))]"
    by (simp add: classified_events [OF assms])
  have ro: "\<And>ob f. chosenThrowable x c env = Some ob \<Longrightarrow> stackStateField s = Some f \<Longrightarrow>
              raisedObjects ?evs =
                [Some (ob\<lparr>longFields := storeField f (PTR_TO_LONG x (callStackAddr x)) (longFields ob)\<rparr>)]"
    by (simp add: raised_object [OF assms])
  show ?thesis
    using fw ro classified_state(3) [OF assms, of signum uctx s]
    by (cases "signalHandler x signum info uctx (Some env, s)")
       (simp add: map_of_storeField)
qed

theorem C10_only_stack_state_written_witness:
  "isNonNativeFrame sampleEnvPending \<and>
   exClassFor sampleExternalsNoMemory sampleEnvPending \<lparr>si_addr = 0\<rparr> =
     Some java_lang_NullPointerException \<and>
   chosenThrowable sampleExternalsNoMemory java_lang_NullPointerException sampleEnvPending =
     Some samplePending \<and>
   stackStateField sampleState = Some sampleField \<and>
   map_of (longFields samplePending) sampleField = Some 0x1111 \<and>
   (case signalHandler sampleExternalsNoMemory 11 \<lparr>si_addr = 0\<rparr> sampleContext
           (Some sampleEnvPending, sampleState) of
      (out, envOpt', s') \<Rightarrow>
        fieldWrites (log s') = [(Some samplePending, Some sampleField, 0x5000)] \<and>
        raisedObjects (log s') =
          [Some \<lparr>clazz = OtherClass ''java/lang/OutOfMemoryError'', errnoCode = None,
                 longFields = [(InstanceField java_lang_Throwable ''cause'' ''J'', 0x77),
                               (sampleField, 0x5000)]\<rparr>])"
  using C10_only_stack_state_written
          [where env = sampleEnvPending and x = sampleExternalsNoMemory
             and info = "\<lparr>si_addr = 0\<rparr>" and c = java_lang_NullPointerException
             and signum = 11 and uctx = sampleContext and s = sampleState]
  by (simp add: sampleEnv_def sampleEnvPending_def samplePending_def sampleExternals_def
        sampleExternalsNoMemory_def sampleState_def sampleField_def chosenThrowable_def
        pendingAfterFailure_def
        sampleContext_def exClassFor_def signalHandler_def raiseFor_unfold redeliver_def
        sigaction_def kill_def puts_def emit_def)

text \<open>
  C6, as the code has it: with stack base 0x1000000 and guard size 0x10000, in a managed
  frame, a fault at 0x0 is a null-pointer fault; a fault at 0x0FFFF00, inside
  \<open>[0xFF0000, 0x1000000)\<close>, is a stack overflow; a fault at 0x0FFFFF00 lies above the stack
  base and is unhandled; a fault at 0x2000000 is unhandled, and the handler resets the
  disposition to the default and sends the signal again.
\<close>

theorem C6_scenario:
  assumes "stackAddr (currentThread env) = 0x1000000"
    and "THREAD_STACK_GUARD_SIZE x = 0x10000" "isNonNativeFrame env"
  shows "observedClassification
           (newEvents s (snd (snd (signalHandler x signum \<lparr>si_addr = 0\<rparr> uctx (Some env, s))))) =
         NullPointerFault
       \<and> observedClassification
           (newEvents s (snd (snd (signalHandler x signum \<lparr>si_addr = 0x0FFFF00\<rparr> uctx (Some env, s))))) =
         StackOverflowFault
       \<and> observedClassification
           (newEvents s (snd (snd (signalHandler x signum \<lparr>si_addr = 0x0FFFFF00\<rparr> uctx (Some env, s))))) =
         Unhandled
       \<and> (case signalHandler x signum \<lparr>si_addr = 0x2000000\<rparr> uctx (Some env, s) of
            (out, envOpt', s') \<Rightarrow>
              observedClassification (newEvents s s') = Unhandled \<and>
              newEvents s s' = [Call_sigaction signum defaultAction, Call_kill 0 signum] \<and>
              delivered s' = delivered s @ [(0, signum)] \<and>
              (sigactionErrno x signum = 0 \<longrightarrow> dispositions s' signum = defaultAction))"
proof -
  have n: "exClassFor x env \<lparr>si_addr = 0x2000000\<rparr> = None"
    using assms by (simp add: exClassFor_def)
  have r: "signalHandler x signum \<lparr>si_addr = 0x2000000\<rparr> uctx (Some env, s) =
           (HandlerReturned, Some env, redeliver x signum s)"
    using n by (simp add: signalHandler_skipped)
  have a: "exClassFor x env \<lparr>si_addr = 0\<rparr> = Some java_lang_NullPointerException"
    by (simp add: exClassFor_def)
  have b: "exClassFor x env \<lparr>si_addr = 0x0FFFF00\<rparr> = Some java_lang_StackOverflowError"
    using assms by (simp add: exClassFor_def)
  have c: "exClassFor x env \<lparr>si_addr = 0x0FFFFF00\<rparr> = None"
    using assms by (simp add: exClassFor_def)
  show ?thesis
    using a b c by (simp add: observed_is_exClass [OF assms(3)] r redeliver_log
        redeliver_delivered redeliver_dispositions)
qed

theorem C6_scenario_witness:
  "stackAddr (currentThread sampleEnv) = 0x1000000 \<and>
   THREAD_STACK_GUARD_SIZE sampleExternals = 0x10000 \<and> isNonNativeFrame sampleEnv \<and>
   sigactionErrno sampleExternals 11 = 0 \<and>
   (case signalHandler sampleExternals 11 \<lparr>si_addr = 0x2000000\<rparr> sampleContext
           (Some sampleEnv, sampleState) of
      (out, envOpt', s') \<Rightarrow>
        log s' = [Call_sigaction 11 defaultAction, Call_kill 0 11] \<and>
        delivered s' = [(0, 11)] \<and> dispositions s' 11 = defaultAction)
   \<and> observedClassification
       (log (snd (snd (signalHandler sampleExternals 11 \<lparr>si_addr = 0x0FFFF00\<rparr> sampleContext
                         (Some sampleEnv, sampleState))))) = StackOverflowFault"
  using C6_scenario
          [where env = sampleEnv and x = sampleExternals and signum = 11 and uctx = sampleContext
             and s = sampleState]
  by (simp add: sampleEnv_def sampleExternals_def sampleState_def newEvents_def split: prod.splits)

text \<open>
  The address 0x0FFFFF00 (268435200) is not below the stack base 0x1000000 (16777216): the
  handler leaves that fault to the operating system.
\<close>

theorem C6_counterexample:
  "stackAddr (currentThread sampleEnv) = 0x1000000 \<and>
   THREAD_STACK_GUARD_SIZE sampleExternals = 0x10000 \<and>
   isNonNativeFrame sampleEnv \<and>
   exClassFor sampleExternals sampleEnv \<lparr>si_addr = 0x0FFFFF00\<rparr> = None \<and>
   observedClassification
     (log (snd (snd (signalHandler sampleExternals 11 \<lparr>si_addr = 0x0FFFFF00\<rparr> sampleContext
                       (Some sampleEnv, sampleState))))) = Unhandled \<and>
   Unhandled \<noteq> StackOverflowFault"
  by (simp add: sampleEnv_def sampleExternals_def sampleState_def
        sampleContext_def exClassFor_def signalHandler_def raiseFor_unfold redeliver_def
        sigaction_def kill_def puts_def emit_def)

subsection \<open>Installation and the signal mask\<close>

lemmas install_unfold =
  installSignalHandlers_def sigaction_def pthread_sigmask_def rvmThrowInternalErrorErrno_def
  rvmTearDownSignals_def Let_def

lemma install_bus_fails:
  assumes "DARWIN (platform x)" "sigactionErrno x (SIGBUS (platform x)) \<noteq> 0"
  shows "fst (installSignalHandlers x (env, s)) = False"
    and "throwable (fst (snd (installSignalHandlers x (env, s)))) =
           Some (internalError (sigactionErrno x (SIGBUS (platform x))))"
    and "log (snd (snd (installSignalHandlers x (env, s)))) =
           log s @ [Call_sigaction (SIGBUS (platform x)) handlerAction,
                    Call_rvmThrowInternalErrorErrno (sigactionErrno x (SIGBUS (platform x)))]"
    and "dispositions (snd (snd (installSignalHandlers x (env, s)))) = dispositions s"
  using assms by (simp_all add: install_unfold internalError_def handlerAction_def)

lemma install_segv_fails:
  assumes "\<not> (DARWIN (platform x) \<and> sigactionErrno x (SIGBUS (platform x)) \<noteq> 0)"
    and "sigactionErrno x SIGSEGV \<noteq> 0"
  shows "fst (installSignalHandlers x (env, s)) = False"
    and "throwable (fst (snd (installSignalHandlers x (env, s)))) =
           Some (internalError (sigactionErrno x SIGSEGV))"
    and "log (snd (snd (installSignalHandlers x (env, s)))) =
           log s @ (if DARWIN (platform x)
                    then [Call_sigaction (SIGBUS (platform x)) handlerAction] else [])
                 @ [Call_sigaction SIGSEGV handlerAction,
                    Call_rvmThrowInternalErrorErrno (sigactionErrno x SIGSEGV)]"
    and "dispositions (snd (snd (installSignalHandlers x (env, s)))) =
           (if DARWIN (platform x)
            then (dispositions s)(SIGBUS (platform x) := handlerAction) else dispositions s)"
  using assms by (simp_all add: install_unfold internalError_def handlerAction_def)

lemma install_mask_fails:
  assumes "\<not> (DARWIN (platform x) \<and> sigactionErrno x (SIGBUS (platform x)) \<noteq> 0)"
    and "sigactionErrno x SIGSEGV = 0" "sigmaskErrno x \<noteq> 0"
  shows "fst (installSignalHandlers x (env, s)) = False"
    and "throwable (fst (snd (installSignalHandlers x (env, s)))) =
           Some (internalError (sigmaskErrno x))"
    and "log (snd (snd (installSignalHandlers x (env, s)))) =
           log s @ (if DARWIN (platform x)
                    then [Call_sigaction (SIGBUS (platform x)) handlerAction] else [])
                 @ [Call_sigaction SIGSEGV handlerAction,
                    Call_pthread_sigmask (HOW_LITERAL 0) None,
                    Call_rvmThrowInternalErrorErrno (sigmaskErrno x)]"
    and "dispositions (snd (snd (installSignalHandlers x (env, s)))) =
           (if DARWIN (platform x)
            then (dispositions s)(SIGBUS (platform x) := handlerAction, SIGSEGV := handlerAction)
            else (dispositions s)(SIGSEGV := handlerAction))"
  using assms by (simp_all add: install_unfold internalError_def handlerAction_def)

lemma install_succeeds:
  assumes "installFailure x = None"
  shows "fst (installSignalHandlers x (env, s)) = True"
    and "fst (snd (installSignalHandlers x (env, s))) =
           env\<lparr>currentThread := (currentThread env)\<lparr>signalMask := blocked s\<rparr>\<rparr>"
    and "blocked (snd (snd (installSignalHandlers x (env, s)))) = blocked s"
proof -
  have c: "\<not> (DARWIN (platform x) \<and> sigactionErrno x (SIGBUS (platform x)) \<noteq> 0)"
      "sigactionErrno x SIGSEGV = 0" "sigmaskErrno x = 0"
    using assms by (simp_all add: installFailure_def split: if_splits)
  show "fst (installSignalHandlers x (env, s)) = True"
    and "fst (snd (installSignalHandlers x (env, s))) =
           env\<lparr>currentThread := (currentThread env)\<lparr>signalMask := blocked s\<rparr>\<rparr>"
    and "blocked (snd (snd (installSignalHandlers x (env, s)))) = blocked s"
    using c by (simp_all add: install_unfold)
qed

text \<open>
  C5, as the code has it: when a handler registration or the capture of the mask fails,
  the installer raises an internal error carrying the operating system's error code
  (\<open>errno\<close> after \<open>sigaction\<close>, the result of \<open>pthread_sigmask\<close>), calls the teardown hook and
  returns failure, and so does \<open>rvmSetupSignals\<close>. The teardown hook does nothing: every
  handler registered earlier in the call is still registered on return, and no
  disposition goes back to what it was.
\<close>

theorem C5_install_failure:
  assumes "installFailure x = Some code"
  shows "case installSignalHandlers x (env, s) of
           (ok, env', s') \<Rightarrow>
             \<not> ok \<and> \<not> fst (rvmSetupSignals x (env, s)) \<and>
             throwable env' = Some (internalError code) \<and>
             (\<exists>pre. newEvents s s' = pre @ [Call_rvmThrowInternalErrorErrno code]) \<and>
             (\<forall>sig. Call_sigaction sig handlerAction \<in> set (newEvents s s') \<and>
                    sigactionErrno x sig = 0 \<longrightarrow> dispositions s' sig = handlerAction) \<and>
             (\<forall>sig. dispositions s' sig \<noteq> handlerAction \<longrightarrow>
                    dispositions s' sig = dispositions s sig)"
proof -
  let ?r = "installSignalHandlers x (env, s)"
  have stp: "fst (rvmSetupSignals x (env, s)) = fst ?r"
    by (cases ?r) (simp add: rvmSetupSignals_def)
  consider
      (bus) "DARWIN (platform x)" "sigactionErrno x (SIGBUS (platform x)) \<noteq> 0"
        "code = sigactionErrno x (SIGBUS (platform x))"
    | (segv) "\<not> (DARWIN (platform x) \<and> sigactionErrno x (SIGBUS (platform x)) \<noteq> 0)"
        "sigactionErrno x SIGSEGV \<noteq> 0" "code = sigactionErrno x SIGSEGV"
    | (mask) "\<not> (DARWIN (platform x) \<and> sigactionErrno x (SIGBUS (platform x)) \<noteq> 0)"
        "sigactionErrno x SIGSEGV = 0" "sigmaskErrno x \<noteq> 0" "code = sigmaskErrno x"
    using assms by (auto simp add: installFailure_def split: if_splits)
  then show ?thesis
  proof cases
    case bus
    show ?thesis
      using install_bus_fails [OF bus(1,2), of env s] bus(2,3) stp
      by (cases ?r) auto
  next
    case segv
    show ?thesis
      using install_segv_fails [OF segv(1,2), of env s] segv stp
      by (cases ?r) (auto split: if_splits)
  next
    case mask
    show ?thesis
      using install_mask_fails [OF mask(1,2,3), of env s] mask stp
      by (cases ?r) (auto split: if_splits)
  qed
qed

theorem C5_install_failure_witness:
  "installFailure sampleExternalsDarwin = Some 22 \<and>
   (case installSignalHandlers sampleExternalsDarwin (sampleEnv, sampleStateFresh) of
      (ok, env', s') \<Rightarrow>
        \<not> ok \<and> throwable env' = Some (internalError 22) \<and>
        log s' = [Call_sigaction 10 handlerAction, Call_sigaction 11 handlerAction,
                  Call_rvmThrowInternalErrorErrno 22] \<and>
        dispositions s' 10 = handlerAction \<and> dispositions s' 11 = defaultAction)
   \<and> installFailure sampleExternalsMaskFails = Some 22 \<and>
   (case installSignalHandlers sampleExternalsMaskFails (sampleEnv, sampleStateFresh) of
      (ok, env', s') \<Rightarrow>
        \<not> ok \<and> throwable env' = Some (internalError 22) \<and>
        dispositions s' 11 = handlerAction)"
  using C5_install_failure
          [where x = sampleExternalsDarwin and code = 22 and env = sampleEnv
             and s = sampleStateFresh]
        C5_install_failure
          [where x = sampleExternalsMaskFails and code = 22 and env = sampleEnv
             and s = sampleStateFresh]
  by (simp add: installFailure_def sampleExternalsDarwin_def sampleExternalsMaskFails_def
        sampleExternals_def sampleStateFresh_def sampleState_def sampleEnv_def SIGSEGV_def
        install_unfold emit_def internalError_def handlerAction_def defaultAction_def)

text \<open>
  On Darwin, with SIGBUS registered and SIGSEGV refused, the installer returns failure and
  the handler it registered for SIGBUS (signal 10, default disposition before the call)
  is still in place.
\<close>

theorem C5_counterexample:
  "installFailure sampleExternalsDarwin = Some 22 \<and>
   dispositions sampleStateFresh 10 = defaultAction \<and>
   fst (installSignalHandlers sampleExternalsDarwin (sampleEnv, sampleStateFresh)) = False \<and>
   dispositions (snd (snd (installSignalHandlers sampleExternalsDarwin (sampleEnv, sampleStateFresh)))) 10
     = handlerAction \<and>
   handlerAction \<noteq> defaultAction"
  by (simp add: installFailure_def sampleExternalsDarwin_def
        sampleExternals_def sampleStateFresh_def sampleState_def sampleEnv_def SIGSEGV_def
        install_unfold emit_def handlerAction_def defaultAction_def)

text \<open>
  C8: \<open>rvmRestoreSignalMask\<close> makes one call, \<open>pthread_sigmask(SIG_SETMASK, ...)\<close> with the
  mask stored in the thread, and drops its result: the environment comes back as it was
  (no exception is raised), whether or not the call failed, and there is no status to
  return. When the call succeeds the thread's blocked mask is the stored mask, whatever
  it was before (replaced, not merged); when it fails the mask stays. After a successful
  installation the stored mask is the mask that was blocked when the installer ran, and
  a later restore brings exactly that mask back.
\<close>

theorem C8_restore_signal_mask:
  "(case rvmRestoreSignalMask x (env, s) of
      (env', s') \<Rightarrow>
        env' = env \<and>
        newEvents s s' = [Call_pthread_sigmask SIG_SETMASK (Some (signalMask (currentThread env)))] \<and>
        (sigmaskErrno x = 0 \<longrightarrow> blocked s' = signalMask (currentThread env)) \<and>
        (sigmaskErrno x \<noteq> 0 \<longrightarrow> blocked s' = blocked s) \<and>
        dispositions s' = dispositions s \<and> delivered s' = delivered s \<and> errno s' = errno s)
   \<and> (case installSignalHandlers x (env, s) of
        (ok, env1, s1) \<Rightarrow>
          ok \<longrightarrow> signalMask (currentThread env1) = blocked s \<and>
                (\<forall>drift. blocked (snd (rvmRestoreSignalMask x (env1, s1\<lparr>blocked := drift\<rparr>))) =
                         blocked s))"
proof -
  have restore: "\<And>e t. rvmRestoreSignalMask x (e, t) =
      (e, if sigmaskErrno x \<noteq> 0
          then emit (Call_pthread_sigmask SIG_SETMASK (Some (signalMask (currentThread e)))) t
          else (emit (Call_pthread_sigmask SIG_SETMASK (Some (signalMask (currentThread e)))) t)
                 \<lparr>blocked := signalMask (currentThread e)\<rparr>)"
    by (simp add: rvmRestoreSignalMask_def pthread_sigmask_def Let_def)
  have first: "case rvmRestoreSignalMask x (env, s) of
      (env', s') \<Rightarrow>
        env' = env \<and>
        newEvents s s' = [Call_pthread_sigmask SIG_SETMASK (Some (signalMask (currentThread env)))] \<and>
        (sigmaskErrno x = 0 \<longrightarrow> blocked s' = signalMask (currentThread env)) \<and>
        (sigmaskErrno x \<noteq> 0 \<longrightarrow> blocked s' = blocked s) \<and>
        dispositions s' = dispositions s \<and> delivered s' = delivered s \<and> errno s' = errno s"
    by (simp add: restore)
  have second: "case installSignalHandlers x (env, s) of
        (ok, env1, s1) \<Rightarrow>
          ok \<longrightarrow> signalMask (currentThread env1) = blocked s \<and>
                (\<forall>drift. blocked (snd (rvmRestoreSignalMask x (env1, s1\<lparr>blocked := drift\<rparr>))) =
                         blocked s)"
  proof (cases "installFailure x")
    case None
    then have m: "sigmaskErrno x = 0"
      by (simp add: installFailure_def split: if_splits)
    show ?thesis
      using install_succeeds [OF None, of env s] m
      by (cases "installSignalHandlers x (env, s)") (simp add: restore)
  next
    case (Some code)
    have "fst (installSignalHandlers x (env, s)) = False"
      using Some install_bus_fails(1) [of x env s] install_segv_fails(1) [of x env s]
            install_mask_fails(1) [of x env s]
      by (auto simp add: installFailure_def split: if_splits)
    then show ?thesis by (cases "installSignalHandlers x (env, s)") simp
  qed
  show ?thesis using first second by simp
qed

theorem C8_restore_signal_mask_witness:
  "sigmaskErrno sampleExternals = 0 \<and>
   sigmaskErrno sampleExternalsMaskFails \<noteq> 0 \<and>
   signalMask (currentThread sampleEnv) = {} \<and> blocked sampleStateFresh = {2, 15} \<and>
   blocked (snd (rvmRestoreSignalMask sampleExternals (sampleEnv, sampleStateFresh))) = {} \<and>
   rvmRestoreSignalMask sampleExternalsMaskFails (sampleEnv, sampleStateFresh) =
     (sampleEnv, sampleStateFresh\<lparr>log := [Call_pthread_sigmask SIG_SETMASK (Some {})]\<rparr>) \<and>
   (case installSignalHandlers sampleExternals (sampleEnv, sampleStateFresh) of
      (ok, env1, s1) \<Rightarrow>
        ok \<and> signalMask (currentThread env1) = {2, 15} \<and>
        blocked (snd (rvmRestoreSignalMask sampleExternals (env1, s1\<lparr>blocked := {9}\<rparr>))) = {2, 15})"
  using C8_restore_signal_mask
          [where x = sampleExternals and env = sampleEnv and s = sampleStateFresh]
        C8_restore_signal_mask
          [where x = sampleExternalsMaskFails and env = sampleEnv and s = sampleStateFresh]
  by (simp add: sampleExternalsMaskFails_def
        sampleExternals_def sampleStateFresh_def sampleState_def sampleEnv_def SIGSEGV_def
        install_unfold emit_def rvmRestoreSignalMask_def)

end
